theory Spec2Isabelle
  imports Complex_Main
begin

section \<open>Python values: strings, paths, exceptions\<close>

text \<open>
  The development embeds the upscaling core of SuperImage:
  \<^verbatim>\<open>scripts/src/models/real_esrgan.py\<close> (the session class \<^verbatim>\<open>RealESRGANUpscaler\<close>),
  \<^verbatim>\<open>scripts/src/cli.py\<close> (\<^verbatim>\<open>upscale_command\<close>) and
  \<^verbatim>\<open>app/src/core/image_processor.py\<close> (the workers and \<^verbatim>\<open>ImageProcessor\<close>).
  Python objects become records, every raise becomes a value of type \<open>exn\<close>, and the
  collaborators outside the repository (file system, network, OpenCV, the
  \<^verbatim>\<open>RealESRGANer\<close> backend) are the fields of an environment record. Logging and
  console output are not modelled.
\<close>

type_synonym bytes = "nat list"
type_synonym ndarray = "nat list"
type_synonym pyfloat = real

datatype exn =
    KeyboardInterrupt
  | SystemExit
  | ValueError string
  | RuntimeError string
  | OSError string
  | AttributeError string
  | CvError string

text \<open>\<^verbatim>\<open>except Exception\<close> catches every class below \<^verbatim>\<open>Exception\<close>;
  \<^verbatim>\<open>KeyboardInterrupt\<close> and \<^verbatim>\<open>SystemExit\<close> derive from \<^verbatim>\<open>BaseException\<close> only.\<close>

fun is_Exception :: "exn \<Rightarrow> bool" where
  "is_Exception KeyboardInterrupt = False"
| "is_Exception SystemExit = False"
| "is_Exception (ValueError m) = True"
| "is_Exception (RuntimeError m) = True"
| "is_Exception (OSError m) = True"
| "is_Exception (AttributeError m) = True"
| "is_Exception (CvError m) = True"

text \<open>\<^verbatim>\<open>str(e)\<close>: the message of the exception.\<close>

fun exn_str :: "exn \<Rightarrow> string" where
  "exn_str KeyboardInterrupt = []"
| "exn_str SystemExit = []"
| "exn_str (ValueError m) = m"
| "exn_str (RuntimeError m) = m"
| "exn_str (OSError m) = m"
| "exn_str (AttributeError m) = m"
| "exn_str (CvError m) = m"

fun join_str :: "string \<Rightarrow> string list \<Rightarrow> string" where
  "join_str sep [] = []"
| "join_str sep [x] = x"
| "join_str sep (x # y # ys) = x @ sep @ join_str sep (y # ys)"

text \<open>\<^verbatim>\<open>str(list_of_strings)\<close>, as the f-string of the constructor's error prints it.\<close>

definition py_repr_list :: "string list \<Rightarrow> string" where
  "py_repr_list xs = ''['' @ join_str '', '' (map (\<lambda>s. [CHR 0x27] @ s @ [CHR 0x27]) xs) @ '']''"

definition digit_char :: "nat \<Rightarrow> char" where
  "digit_char d = ''0123456789'' ! (d mod 10)"

fun str_nat :: "nat \<Rightarrow> string" where
  "str_nat n = (if n < 10 then [digit_char n] else str_nat (n div 10) @ [digit_char (n mod 10)])"

subsection \<open>pathlib, POSIX flavour\<close>

text \<open>
  A \<^verbatim>\<open>Path\<close> is its anchor (absolute or not) and its components. \<^verbatim>\<open>Path(s)\<close>
  splits at \<^verbatim>\<open>/\<close> and drops empty and \<^verbatim>\<open>.\<close> components; \<^verbatim>\<open>name\<close> is the last
  component, \<^verbatim>\<open>suffix\<close> and \<^verbatim>\<open>stem\<close> cut the name at its last dot when that dot is
  neither the first nor the last character.
\<close>

datatype ppath = PPath (is_abs: bool) (parts: "string list")

fun split_slash :: "string \<Rightarrow> string \<Rightarrow> string list" where
  "split_slash acc [] = [acc]"
| "split_slash acc (c # cs) =
     (if c = CHR ''/'' then acc # split_slash [] cs else split_slash (acc @ [c]) cs)"

definition Path :: "string \<Rightarrow> ppath" where
  "Path s = PPath (s \<noteq> [] \<and> hd s = CHR ''/'')
                  (filter (\<lambda>c. c \<noteq> [] \<and> c \<noteq> ''.'') (split_slash [] s))"

definition str_path :: "ppath \<Rightarrow> string" where
  "str_path p =
     (if is_abs p then ''/'' @ join_str ''/'' (parts p)
      else if parts p = [] then ''.'' else join_str ''/'' (parts p))"

definition name :: "ppath \<Rightarrow> string" where
  "name p = (if parts p = [] then [] else last (parts p))"

definition parent :: "ppath \<Rightarrow> ppath" where
  "parent p = PPath (is_abs p) (butlast (parts p))"

text \<open>\<^verbatim>\<open>p / s\<close>: an absolute right operand replaces the left one.\<close>

definition joinpath :: "ppath \<Rightarrow> string \<Rightarrow> ppath" where
  "joinpath p s = (let q = Path s in if is_abs q then q else PPath (is_abs p) (parts p @ parts q))"

text \<open>\<^verbatim>\<open>s.rfind(c)\<close>: the index of the last occurrence, or \<open>-1\<close>.\<close>

fun rfind :: "char \<Rightarrow> string \<Rightarrow> int" where
  "rfind c [] = -1"
| "rfind c (x # xs) =
     (let r = rfind c xs in if r \<ge> 0 then r + 1 else if x = c then 0 else -1)"

definition suffix :: "ppath \<Rightarrow> string" where
  "suffix p =
     (let n = name p; i = rfind CHR ''.'' n
      in if 0 < i \<and> i < int (length n) - 1 then drop (nat i) n else [])"

definition stem :: "ppath \<Rightarrow> string" where
  "stem p =
     (let n = name p; i = rfind CHR ''.'' n
      in if 0 < i \<and> i < int (length n) - 1 then take (nat i) n else n)"

section \<open>The model catalog\<close>

record model_config =
  url :: string
  scale :: nat
  num_block :: nat

definition MODEL_CONFIGS :: "(string \<times> model_config) list" where
  "MODEL_CONFIGS =
     [(''RealESRGAN_x4plus'',
        \<lparr>url = ''https://github.com/xinntao/Real-ESRGAN/releases/download/v0.1.0/RealESRGAN_x4plus.pth'',
         scale = 4, num_block = 23\<rparr>),
      (''RealESRGAN_x4plus_anime_6B'',
        \<lparr>url = ''https://github.com/xinntao/Real-ESRGAN/releases/download/v0.2.2.4/RealESRGAN_x4plus_anime_6B.pth'',
         scale = 4, num_block = 6\<rparr>)]"

section \<open>The world and the external collaborators\<close>

text \<open>
  The world is the part of the machine the code reads and writes: the regular files by
  path, and a log of every file-system, network and device call in the order made. The
  field \<open>calls\<close> is a ghost log of the session methods invoked, with the value each
  \<^verbatim>\<open>upscale\<close> returned.
\<close>

datatype io_event =
    Stat string
  | Mkdir string
  | Urlretrieve string string
  | ReadFile string
  | WriteFile string bytes
  | EmptyCache

datatype call =
    Call_upscale ppath ppath "exn + bool"
  | Call_cleanup

record world =
  files :: "string \<rightharpoonup> bytes"
  dirs :: "string set"
  io_log :: "io_event list"
  calls :: "call list"

text \<open>What \<^verbatim>\<open>urllib.request.urlretrieve\<close> does: it writes the whole file, or raises,
  possibly after writing a part of it.\<close>

datatype fetch_outcome = Fetched bytes | FetchRaises exn "bytes option"

text \<open>The instance of \<^verbatim>\<open>RealESRGANer\<close>: what it was built with, and the attributes
  \<^verbatim>\<open>img\<close> and \<^verbatim>\<open>output\<close> it stores during \<^verbatim>\<open>enhance\<close> (\<open>None\<close>: the attribute is absent).\<close>

record upsampler =
  up_scale :: nat
  up_model_path :: string
  up_num_block :: nat
  up_tile :: int
  up_tile_pad :: int
  up_pre_pad :: int
  up_half :: bool
  up_gpu_id :: "nat option"
  up_img :: "ndarray option"
  up_output :: "ndarray option"

text \<open>The effect of one call of \<^verbatim>\<open>RealESRGANer.enhance\<close>: it returns the output array or
  raises, and leaves the instance holding the tensors it stored on the way.\<close>

record enhance_result =
  enh_outcome :: "exn + ndarray"
  enh_img :: "ndarray option"
  enh_output :: "ndarray option"

record env =
  project_root :: ppath
  cuda_is_available :: bool
  mkdir_raises :: "string \<Rightarrow> exn option"
  urlretrieve :: "string \<Rightarrow> fetch_outcome"
  load_weights :: "bytes \<Rightarrow> exn option"
  imdecode :: "bytes \<Rightarrow> exn + ndarray option"
  enhance :: "upsampler \<Rightarrow> ndarray \<Rightarrow> pyfloat \<Rightarrow> enhance_result"
  imencode :: "string \<Rightarrow> ndarray \<Rightarrow> exn + (bool \<times> bytes)"
  tofile_raises :: "string \<Rightarrow> exn option"
  percent :: "nat \<Rightarrow> nat \<Rightarrow> int"

definition log_io :: "io_event \<Rightarrow> world \<Rightarrow> world" where
  "log_io ev w = w\<lparr>io_log := io_log w @ [ev]\<rparr>"

definition log_call :: "call \<Rightarrow> world \<Rightarrow> world" where
  "log_call c w = w\<lparr>calls := calls w @ [c]\<rparr>"

text \<open>\<^verbatim>\<open>Path.exists()\<close> and \<^verbatim>\<open>Path.is_file()\<close>.\<close>

definition is_file :: "world \<Rightarrow> string \<Rightarrow> bool" where
  "is_file w p = (files w p \<noteq> None)"

definition exists_path :: "world \<Rightarrow> string \<Rightarrow> bool" where
  "exists_path w p = (is_file w p \<or> p \<in> dirs w)"

text \<open>\<^verbatim>\<open>mkdir(parents=True, exist_ok=True)\<close>: logged, then it raises or the directory exists.\<close>

definition mkdir :: "env \<Rightarrow> string \<Rightarrow> world \<Rightarrow> exn option \<times> world" where
  "mkdir E d w =
     (let w1 = log_io (Mkdir d) w
      in case mkdir_raises E d of
           Some e \<Rightarrow> (Some e, w1)
         | None \<Rightarrow> (None, w1\<lparr>dirs := insert d (dirs w1)\<rparr>))"

section \<open>The session: RealESRGANUpscaler\<close>

record upscaler =
  model_name :: string
  model_cfg :: model_config
  half_precision :: bool
  device :: string
  tile :: int
  tile_pad :: int
  pre_pad :: int
  upsampler :: "upsampler option"
  model_cache_dir :: ppath

text \<open>\<^verbatim>\<open>__init__\<close> (lines 70-88): the catalog check comes first, before the cache
  directory is made.\<close>

definition unknown_model_message :: "string \<Rightarrow> string" where
  "unknown_model_message n =
     ''Unknown model: '' @ n @ ''. Available models: '' @ py_repr_list (map fst MODEL_CONFIGS)"

definition init ::
  "env \<Rightarrow> string \<Rightarrow> string option \<Rightarrow> bool \<Rightarrow> int \<Rightarrow> int \<Rightarrow> int \<Rightarrow> world \<Rightarrow> (exn + upscaler) \<times> world" where
  "init E n dev half t tp pp w =
     (case map_of MODEL_CONFIGS n of
        None \<Rightarrow> (Inl (ValueError (unknown_model_message n)), w)
      | Some cfg \<Rightarrow>
          let auto_dev = (if cuda_is_available E then ''cuda'' else ''cpu'');
              d = (case dev of None \<Rightarrow> auto_dev | Some x \<Rightarrow> if x = [] then auto_dev else x);
              cache = joinpath (project_root E) ''models''
          in (case mkdir E (str_path cache) w of
                (Some e, w1) \<Rightarrow> (Inl e, w1)
              | (None, w1) \<Rightarrow>
                  (Inr \<lparr>model_name = n, model_cfg = cfg, half_precision = half, device = d,
                        tile = t, tile_pad = tp, pre_pad = pp, upsampler = None,
                        model_cache_dir = cache\<rparr>, w1)))"

text \<open>\<^verbatim>\<open>_get_model_path\<close> (lines 92-109).\<close>

definition model_path :: "upscaler \<Rightarrow> string" where
  "model_path s = str_path (joinpath (model_cache_dir s) (model_name s @ ''.pth''))"

definition get_model_path :: "env \<Rightarrow> upscaler \<Rightarrow> world \<Rightarrow> (exn + string) \<times> world" where
  "get_model_path E s w =
     (let mp = model_path s; w1 = log_io (Stat mp) w
      in if exists_path w mp then (Inr mp, w1)
         else
           let u = url (model_cfg s); w2 = log_io (Urlretrieve u mp) w1
           in (case urlretrieve E u of
                 Fetched b \<Rightarrow> (Inr mp, w2\<lparr>files := (files w2)(mp \<mapsto> b)\<rparr>)
               | FetchRaises e part \<Rightarrow>
                   let w3 = (case part of None \<Rightarrow> w2
                                        | Some b \<Rightarrow> w2\<lparr>files := (files w2)(mp \<mapsto> b)\<rparr>)
                   in if is_Exception e
                      then (Inl (RuntimeError (''Failed to download model from '' @ u @ '': '' @ exn_str e)), w3)
                      else (Inl e, w3)))"

text \<open>\<^verbatim>\<open>_load_upsampler\<close> (lines 111-155). Building \<^verbatim>\<open>RRDBNet\<close> and \<^verbatim>\<open>RealESRGANer\<close>
  reads the weights file; whatever they raise is the environment's \<open>load_weights\<close>.\<close>

definition wrap_load_error :: "exn \<Rightarrow> exn" where
  "wrap_load_error e =
     (if is_Exception e then RuntimeError (''Failed to load Real-ESRGAN model: '' @ exn_str e) else e)"

definition new_upsampler :: "env \<Rightarrow> upscaler \<Rightarrow> string \<Rightarrow> upsampler" where
  "new_upsampler E s mp =
     (let gpu_id = (if device s = ''cuda''
                    then (if cuda_is_available E then Some 0 else None) else None)
      in \<lparr>up_scale = scale (model_cfg s), up_model_path = mp,
          up_num_block = num_block (model_cfg s),
          up_tile = tile s, up_tile_pad = tile_pad s,
          up_pre_pad = pre_pad s, up_half = half_precision s,
          up_gpu_id = gpu_id, up_img = None, up_output = None\<rparr>)"

definition load_upsampler :: "env \<Rightarrow> upscaler \<Rightarrow> world \<Rightarrow> (exn + upscaler) \<times> world" where
  "load_upsampler E s w =
     (if upsampler s \<noteq> None then (Inr s, w)
      else
        (case get_model_path E s w of
           (Inl e, w1) \<Rightarrow> (Inl (wrap_load_error e), w1)
         | (Inr mp, w1) \<Rightarrow>
             let w2 = log_io (ReadFile mp) w1
             in (case files w1 mp of
                   None \<Rightarrow> (Inl (wrap_load_error (OSError mp)), w2)
                 | Some wb \<Rightarrow>
                     (case load_weights E wb of
                        Some e \<Rightarrow> (Inl (wrap_load_error e), w2)
                      | None \<Rightarrow>
                          (Inr (s\<lparr>upsampler := Some (new_upsampler E s mp)\<rparr>), w2)))))"

text \<open>\<^verbatim>\<open>upscale\<close>, lines 204-243: from the call of \<^verbatim>\<open>enhance\<close> to the return. The
  attributes the backend stored are deleted only after \<^verbatim>\<open>enhance\<close> has returned.\<close>

definition upscale_enhance_save ::
  "env \<Rightarrow> upscaler \<Rightarrow> world \<Rightarrow> ppath \<Rightarrow> ndarray \<Rightarrow> pyfloat \<Rightarrow> (exn + bool) \<times> upscaler \<times> world" where
  "upscale_enhance_save E s w outp img outscale =
     (case upsampler s of
        None \<Rightarrow> (Inl (AttributeError ''enhance''), s, w)
      | Some u \<Rightarrow>
          let r = enhance E u img outscale;
              u1 = u\<lparr>up_img := enh_img r, up_output := enh_output r\<rparr>;
              s1 = s\<lparr>upsampler := Some u1\<rparr>
          in (case enh_outcome r of
                Inl e \<Rightarrow> (Inl e, s1, w)
              | Inr out \<Rightarrow>
                  let w1 = (if cuda_is_available E then log_io EmptyCache w else w);
                      s2 = s1\<lparr>upsampler := Some (u1\<lparr>up_img := None, up_output := None\<rparr>)\<rparr>
                  in (case imencode E (suffix outp) out of
                        Inl e \<Rightarrow> (Inl e, s2, w1)
                      | Inr (is_success, buffer) \<Rightarrow>
                          if is_success then
                            (let w2 = log_io (WriteFile (str_path outp) buffer) w1
                             in case tofile_raises E (str_path outp) of
                                  Some e \<Rightarrow> (Inl e, s2, w2)
                                | None \<Rightarrow>
                                    (Inr True, s2,
                                     w2\<lparr>files := (files w2)(str_path outp \<mapsto> buffer)\<rparr>))
                          else (Inr False, s2, w1))))"

text \<open>\<^verbatim>\<open>upscale\<close>, the body of the \<^verbatim>\<open>try\<close> (lines 191-243).\<close>

definition upscale_try ::
  "env \<Rightarrow> upscaler \<Rightarrow> world \<Rightarrow> ppath \<Rightarrow> ppath \<Rightarrow> pyfloat \<Rightarrow> (exn + bool) \<times> upscaler \<times> world" where
  "upscale_try E s w inp outp outscale =
     (case mkdir E (str_path (parent outp)) w of
        (Some e, w1) \<Rightarrow> (Inl e, s, w1)
      | (None, w1) \<Rightarrow>
          (case load_upsampler E s w1 of
             (Inl e, w2) \<Rightarrow> (Inl e, s, w2)
           | (Inr s1, w2) \<Rightarrow>
               let w3 = log_io (ReadFile (str_path inp)) w2
               in (case files w2 (str_path inp) of
                     None \<Rightarrow> (Inl (OSError (str_path inp)), s1, w3)
                   | Some img_buffer \<Rightarrow>
                       (case imdecode E img_buffer of
                          Inl e \<Rightarrow> (Inl e, s1, w3)
                        | Inr None \<Rightarrow> (Inr False, s1, w3)
                        | Inr (Some img) \<Rightarrow> upscale_enhance_save E s1 w3 outp img outscale))))"

text \<open>\<^verbatim>\<open>upscale\<close> (lines 183-247). Its path arguments are \<^verbatim>\<open>str | Path\<close>. The handler
  \<^verbatim>\<open>except Exception\<close> turns an exception of the \<^verbatim>\<open>try\<close> body into \<open>False\<close>; what does
  not derive from \<^verbatim>\<open>Exception\<close> leaves the function.\<close>

datatype pathlike = Str string | Pth ppath

fun to_Path :: "pathlike \<Rightarrow> ppath" where
  "to_Path (Str s) = Path s"
| "to_Path (Pth p) = p"

definition upscale ::
  "env \<Rightarrow> upscaler \<Rightarrow> world \<Rightarrow> pathlike \<Rightarrow> pathlike \<Rightarrow> pyfloat \<Rightarrow> (exn + bool) \<times> upscaler \<times> world" where
  "upscale E s w input_path output_path outscale =
     (let inp = to_Path input_path; outp = to_Path output_path;
          w0 = log_io (Stat (str_path inp)) w;
          (r, s', w') =
            (if \<not> exists_path w (str_path inp) then (Inr False, s, w0)
             else
               (case upscale_try E s w0 inp outp outscale of
                  (Inl e, s1, w1) \<Rightarrow>
                    if is_Exception e then (Inr False, s1, w1) else (Inl e, s1, w1)
                | (Inr b, s1, w1) \<Rightarrow> (Inr b, s1, w1)))
      in (r, s', log_call (Call_upscale inp outp r) w'))"

text \<open>\<^verbatim>\<open>cleanup\<close> (lines 249-256).\<close>

definition cleanup :: "env \<Rightarrow> upscaler \<Rightarrow> world \<Rightarrow> upscaler \<times> world" where
  "cleanup E s w =
     (let w0 = log_call Call_cleanup w
      in case upsampler s of
           None \<Rightarrow> (s, w0)
         | Some u \<Rightarrow>
             (s\<lparr>upsampler := None\<rparr>,
              if cuda_is_available E then log_io EmptyCache w0 else w0))"

section \<open>The command line: upscale\_command\<close>

record cli_args =
  arg_input :: string
  arg_output :: string
  arg_model :: string

text \<open>\<^verbatim>\<open>upscale_command\<close> (cli.py, lines 32-75). The session is built with the defaults
  of the constructor, \<^verbatim>\<open>upscale\<close> is called with its default \<^verbatim>\<open>outscale\<close>, and
  \<^verbatim>\<open>cleanup\<close> is the \<^verbatim>\<open>finally\<close> clause.\<close>

definition upscale_command :: "env \<Rightarrow> cli_args \<Rightarrow> world \<Rightarrow> (exn + int) \<times> world" where
  "upscale_command E args w =
     (let input_path = Path (arg_input args); output_path = Path (arg_output args);
          w1 = log_io (Stat (str_path input_path)) w
      in if \<not> exists_path w (str_path input_path) then (Inr 1, w1)
         else
           let w2 = log_io (Stat (str_path input_path)) w1
           in if \<not> is_file w (str_path input_path) then (Inr 1, w2)
              else
                (case init E (arg_model args) None True 400 10 0 w2 of
                   (Inl e, w3) \<Rightarrow> (Inl e, w3)
                 | (Inr upscaler, w3) \<Rightarrow>
                     (case upscale E upscaler w3 (Pth input_path) (Pth output_path) 4 of
                        (r, upscaler1, w4) \<Rightarrow>
                          let res = (case r of
                                       Inr success \<Rightarrow> (if success then Inr 0 else Inr 1)
                                     | Inl e \<Rightarrow>
                                         if e = KeyboardInterrupt then Inr 1
                                         else if is_Exception e then Inr 1
                                         else Inl e)
                          in (res, snd (cleanup E upscaler1 w4)))))"

section \<open>The workers and the image processor\<close>

datatype signal =
    Progress int string
  | Finished_single bool string
  | Finished_batch nat nat
  | Error string

record upscale_worker =
  uw_input_path :: string
  uw_output_path :: string
  uw_model_name :: string
  uw_tile :: int
  uw_tile_pad :: int
  uw_pre_pad :: int
  uw_outscale :: pyfloat

record batch_worker =
  bw_input_paths :: "string list"
  bw_output_dir :: string
  bw_model_name :: string
  bw_tile :: int
  bw_tile_pad :: int
  bw_pre_pad :: int
  bw_outscale :: pyfloat

text \<open>\<^verbatim>\<open>UpscaleWorker.run\<close> (lines 42-73). The result is the exception that leaves
  \<^verbatim>\<open>run\<close>, if any, the signals emitted in order, and the world.\<close>

definition UpscaleWorker_run ::
  "env \<Rightarrow> upscale_worker \<Rightarrow> world \<Rightarrow> exn option \<times> signal list \<times> world" where
  "UpscaleWorker_run E k w =
     (let sigs0 = [Progress 10 (''Initializing '' @ uw_model_name k @ ''...'')];
          handler = (\<lambda>e sigs w'.
             if is_Exception e
             then (None, sigs @ [Error (''Error: '' @ exn_str e), Finished_single False []], w')
             else (Some e, sigs, w'))
      in case init E (uw_model_name k) None True (uw_tile k) (uw_tile_pad k) (uw_pre_pad k) w of
           (Inl e, w1) \<Rightarrow> handler e sigs0 w1
         | (Inr upscaler, w1) \<Rightarrow>
             let sigs1 = sigs0 @ [Progress 30 ''Loading model...'']
             in (case upscale E upscaler w1 (Str (uw_input_path k)) (Str (uw_output_path k))
                        (uw_outscale k) of
                   (Inl e, upscaler1, w2) \<Rightarrow> handler e sigs1 w2
                 | (Inr success, upscaler1, w2) \<Rightarrow>
                     let w3 = snd (cleanup E upscaler1 w2)
                     in if success
                        then (None, sigs1 @ [Progress 100 ''Upscaling completed!'',
                                             Finished_single True (uw_output_path k)], w3)
                        else (None, sigs1 @ [Error ''Upscaling failed'',
                                             Finished_single False []], w3)))"

text \<open>The \<^verbatim>\<open>for\<close> loop of \<^verbatim>\<open>BatchUpscaleWorker.run\<close> (lines 120-137): the loop carries the
  session, the world, \<^verbatim>\<open>success_count\<close> and the signals. It stops at an exception that
  leaves \<^verbatim>\<open>upscale\<close>.\<close>

definition output_file :: "ppath \<Rightarrow> string \<Rightarrow> ppath" where
  "output_file output_dir_path input_path =
     (let input_file = Path input_path
      in joinpath output_dir_path (stem input_file @ ''_upscaled'' @ suffix input_file))"

definition processing_message :: "nat \<Rightarrow> nat \<Rightarrow> string \<Rightarrow> string" where
  "processing_message idx total_n input_path =
     ''Processing '' @ str_nat (idx + 1) @ ''/'' @ str_nat total_n @ '': '' @ name (Path input_path)"

fun batch_loop ::
  "env \<Rightarrow> ppath \<Rightarrow> pyfloat \<Rightarrow> nat \<Rightarrow> nat \<Rightarrow> string list \<Rightarrow> upscaler \<Rightarrow> world \<Rightarrow> nat \<Rightarrow> signal list
     \<Rightarrow> exn option \<times> upscaler \<times> world \<times> nat \<times> signal list" where
  "batch_loop E odir outscale total_n idx [] s w success_count sigs =
     (None, s, w, success_count, sigs)"
| "batch_loop E odir outscale total_n idx (input_path # rest) s w success_count sigs =
     (let sigs1 = sigs @ [Progress (percent E idx total_n) (processing_message idx total_n input_path)]
      in case upscale E s w (Str input_path) (Str (str_path (output_file odir input_path))) outscale of
           (Inl e, s1, w1) \<Rightarrow> (Some e, s1, w1, success_count, sigs1)
         | (Inr success, s1, w1) \<Rightarrow>
             batch_loop E odir outscale total_n (Suc idx) rest s1 w1
               (if success then success_count + 1 else success_count) sigs1)"

text \<open>\<^verbatim>\<open>BatchUpscaleWorker.run\<close> (lines 102-146). \<^verbatim>\<open>cleanup\<close> is the statement after the
  loop, inside the \<^verbatim>\<open>try\<close>; the handler emits the error and \<^verbatim>\<open>finished(0, n)\<close>.\<close>

definition batch_handler ::
  "nat \<Rightarrow> exn \<Rightarrow> signal list \<Rightarrow> world \<Rightarrow> exn option \<times> signal list \<times> world" where
  "batch_handler n e sigs w =
     (if is_Exception e
      then (None, sigs @ [Error (''Batch processing error: '' @ exn_str e), Finished_batch 0 n], w)
      else (Some e, sigs, w))"

definition BatchUpscaleWorker_run ::
  "env \<Rightarrow> batch_worker \<Rightarrow> world \<Rightarrow> exn option \<times> signal list \<times> world" where
  "BatchUpscaleWorker_run E k w =
     (let total_n = length (bw_input_paths k);
          sigs0 = [Progress 0 (''Initializing '' @ bw_model_name k @ ''...'')]
      in case init E (bw_model_name k) None True (bw_tile k) (bw_tile_pad k) (bw_pre_pad k) w of
           (Inl e, w1) \<Rightarrow> batch_handler total_n e sigs0 w1
         | (Inr upscaler, w1) \<Rightarrow>
             let output_dir_path = Path (bw_output_dir k)
             in (case mkdir E (str_path output_dir_path) w1 of
                   (Some e, w2) \<Rightarrow> batch_handler total_n e sigs0 w2
                 | (None, w2) \<Rightarrow>
                     (case batch_loop E output_dir_path (bw_outscale k) total_n 0
                             (bw_input_paths k) upscaler w2 0 sigs0 of
                        (Some e, upscaler1, w3, success_count, sigs) \<Rightarrow>
                          batch_handler total_n e sigs w3
                      | (None, upscaler1, w3, success_count, sigs) \<Rightarrow>
                          (None,
                           sigs @ [Progress 100 ''Batch processing completed!'',
                                   Finished_batch success_count total_n],
                           snd (cleanup E upscaler1 w3)))))"


datatype job = Single upscale_worker | Batch batch_worker






section \<open>Notions the properties are stated with\<close>

text \<open>An environment raises only what \<^verbatim>\<open>except Exception\<close> catches: no external step
  ends in \<^verbatim>\<open>KeyboardInterrupt\<close> or \<^verbatim>\<open>SystemExit\<close>.\<close>

definition raises_only_Exception :: "env \<Rightarrow> bool" where
  "raises_only_Exception E =
     ((\<forall>d e. mkdir_raises E d = Some e \<longrightarrow> is_Exception e) \<and>
      (\<forall>u e part. urlretrieve E u = FetchRaises e part \<longrightarrow> is_Exception e) \<and>
      (\<forall>b e. load_weights E b = Some e \<longrightarrow> is_Exception e) \<and>
      (\<forall>b e. imdecode E b = Inl e \<longrightarrow> is_Exception e) \<and>
      (\<forall>u img sc e. enh_outcome (enhance E u img sc) = Inl e \<longrightarrow> is_Exception e) \<and>
      (\<forall>suf out e. imencode E suf out = Inl e \<longrightarrow> is_Exception e) \<and>
      (\<forall>p e. tofile_raises E p = Some e \<longrightarrow> is_Exception e))"

text \<open>The session holds no per-call buffer: its backend, if built, has neither the
  attribute \<^verbatim>\<open>img\<close> nor \<^verbatim>\<open>output\<close>. The local arrays of \<^verbatim>\<open>upscale\<close> die with its
  frame and are not part of the session.\<close>

definition holds_no_call_buffers :: "upscaler \<Rightarrow> bool" where
  "holds_no_call_buffers s =
     (case upsampler s of None \<Rightarrow> True | Some u \<Rightarrow> up_img u = None \<and> up_output u = None)"






text \<open>The call the batch loop makes for an item with the value it returned, and the
  progress signal emitted before the item.\<close>

definition batch_call :: "ppath \<Rightarrow> string \<times> bool \<Rightarrow> call" where
  "batch_call odir pr =
     Call_upscale (Path (fst pr)) (Path (str_path (output_file odir (fst pr)))) (Inr (snd pr))"

definition batch_progress :: "env \<Rightarrow> nat \<Rightarrow> nat \<times> string \<Rightarrow> signal" where
  "batch_progress E total_n ip =
     Progress (percent E (fst ip) total_n) (processing_message (fst ip) total_n (snd ip))"

subsection \<open>The batch result as the specification words it\<close>

text \<open>The specification's \<^verbatim>\<open>run_batch\<close> returns a \<^verbatim>\<open>BatchResult\<close> with a list of the
  failed items: on success of an item \<^verbatim>\<open>success_count\<close> is incremented, on failure the
  display name of the item is appended to the failed list. This is that result, computed
  over the same session operations; the worker of the source is compared with it below.\<close>

record batch_result =
  success_count :: nat
  total_count :: nat
  failed :: "string list"

fun spec_batch_loop ::
  "env \<Rightarrow> ppath \<Rightarrow> pyfloat \<Rightarrow> string list \<Rightarrow> upscaler \<Rightarrow> world \<Rightarrow> nat \<times> string list" where
  "spec_batch_loop E odir outscale [] s w = (0, [])"
| "spec_batch_loop E odir outscale (p # rest) s w =
     (case upscale E s w (Str p) (Str (str_path (output_file odir p))) outscale of
        (r, s1, w1) \<Rightarrow>
          (case spec_batch_loop E odir outscale rest s1 w1 of
             (n, names) \<Rightarrow>
               if r = Inr True then (Suc n, names) else (n, name (Path p) # names)))"

definition spec_run_batch :: "env \<Rightarrow> batch_worker \<Rightarrow> world \<Rightarrow> batch_result option" where
  "spec_run_batch E k w =
     (case init E (bw_model_name k) None True (bw_tile k) (bw_tile_pad k) (bw_pre_pad k) w of
        (Inl e, w1) \<Rightarrow> None
      | (Inr s, w1) \<Rightarrow>
          (case mkdir E (str_path (Path (bw_output_dir k))) w1 of
             (Some e, w2) \<Rightarrow> None
           | (None, w2) \<Rightarrow>
               (case spec_batch_loop E (Path (bw_output_dir k)) (bw_outscale k) (bw_input_paths k) s w2 of
                  (n, names) \<Rightarrow>
                    Some \<lparr>success_count = n, total_count = length (bw_input_paths k),
                          failed = names\<rparr>)))"

section \<open>Concrete environments\<close>

text \<open>An environment in which every external step succeeds, worlds with input images,
  and a session as the constructor builds it; then environments in which one step
  fails. The properties below are instantiated at these.\<close>

definition env0 :: env where
  "env0 = \<lparr>project_root = Path ''/app'', cuda_is_available = False,
           mkdir_raises = (\<lambda>d. None),
           urlretrieve = (\<lambda>u. Fetched [1, 2, 3]),
           load_weights = (\<lambda>b. None),
           imdecode = (\<lambda>b. if b = [] then Inr None else Inr (Some b)),
           enhance = (\<lambda>u img sc. \<lparr>enh_outcome = Inr (img @ img), enh_img = Some img,
                                    enh_output = Some (img @ img)\<rparr>),
           imencode = (\<lambda>suf out. Inr (True, out)),
           tofile_raises = (\<lambda>p. None),
           percent = (\<lambda>i n. int (i * 100 div n))\<rparr>"

definition world0 :: world where
  "world0 = \<lparr>files = [''in/a.png'' \<mapsto> [7, 7]], dirs = {}, io_log = [], calls = []\<rparr>"

definition session0 :: upscaler where
  "session0 =
     \<lparr>model_name = ''RealESRGAN_x4plus'',
      model_cfg = \<lparr>url = ''https://github.com/xinntao/Real-ESRGAN/releases/download/v0.1.0/RealESRGAN_x4plus.pth'',
                   scale = 4, num_block = 23\<rparr>,
      half_precision = True, device = ''cpu'', tile = 400, tile_pad = 10, pre_pad = 0,
      upsampler = None, model_cache_dir = Path ''/app/models''\<rparr>"



definition env_oom :: env where
  "env_oom = env0\<lparr>enhance := (\<lambda>u img sc. \<lparr>enh_outcome = Inl (RuntimeError ''CUDA out of memory''),
                                         enh_img = Some img, enh_output = None\<rparr>)\<rparr>"

definition env_interrupt :: env where
  "env_interrupt = env0\<lparr>enhance := (\<lambda>u img sc. \<lparr>enh_outcome = Inl KeyboardInterrupt,
                                         enh_img = Some img, enh_output = None\<rparr>)\<rparr>"

definition env_mkdir_fail :: env where
  "env_mkdir_fail = env0\<lparr>mkdir_raises := (\<lambda>d. if d = ''out'' then Some (OSError ''out'') else None)\<rparr>"




text \<open>A batch of five images; in one world the third file does not decode, in the other
  the second.\<close>

definition batch5 :: batch_worker where
  "batch5 = \<lparr>bw_input_paths = [''in/a.png'', ''in/b.png'', ''in/c.png'', ''in/d.png'', ''in/e.png''],
             bw_output_dir = ''out'', bw_model_name = ''RealESRGAN_x4plus'',
             bw_tile = 400, bw_tile_pad = 10, bw_pre_pad = 0, bw_outscale = 4\<rparr>"

definition batch1 :: batch_worker where
  "batch1 = batch5\<lparr>bw_input_paths := [''in/a.png'']\<rparr>"

definition world5c :: world where
  "world5c = \<lparr>files = [''in/a.png'' \<mapsto> [1], ''in/b.png'' \<mapsto> [2], ''in/c.png'' \<mapsto> [],
                       ''in/d.png'' \<mapsto> [4], ''in/e.png'' \<mapsto> [5]],
              dirs = {}, io_log = [], calls = []\<rparr>"

definition world5b :: world where
  "world5b = \<lparr>files = [''in/a.png'' \<mapsto> [1], ''in/b.png'' \<mapsto> [], ''in/c.png'' \<mapsto> [3],
                       ''in/d.png'' \<mapsto> [4], ''in/e.png'' \<mapsto> [5]],
              dirs = {}, io_log = [], calls = []\<rparr>"

text \<open>A run, the disposal of the session, and a second run on the disposed session.\<close>

definition run1 :: "(exn + bool) \<times> upscaler \<times> world" where
  "run1 = upscale env0 session0 world0 (Str ''in/a.png'') (Str ''out/a_up.png'') 4"

definition disposed :: "upscaler \<times> world" where
  "disposed = cleanup env0 (fst (snd run1)) (snd (snd run1))"

definition run2 :: "(exn + bool) \<times> upscaler \<times> world" where
  "run2 = upscale env0 (fst disposed) (snd disposed) (Str ''in/a.png'') (Str ''out/a_up.png'') 4"

definition args0 :: cli_args where
  "args0 = \<lparr>arg_input = ''in/a.png'', arg_output = ''out/a_up.png'', arg_model = ''RealESRGAN_x4plus''\<rparr>"



section \<open>Properties\<close>

subsection \<open>The ghost log of calls\<close>

lemma calls_log_io [simp]: "calls (log_io ev w) = calls w"
  by (simp add: log_io_def)

lemma calls_mkdir [simp]: "calls (snd (mkdir E d w)) = calls w"
  by (simp add: mkdir_def Let_def split: option.splits)

lemma calls_get_model_path [simp]: "calls (snd (get_model_path E s w)) = calls w"
  by (simp add: get_model_path_def Let_def split: fetch_outcome.splits option.splits)

lemma calls_load_upsampler [simp]: "calls (snd (load_upsampler E s w)) = calls w"
proof (cases "get_model_path E s w")
  case (Pair r w1)
  then have "calls w1 = calls w"
    using calls_get_model_path [of E s w] by simp
  with Pair show ?thesis
    by (simp add: load_upsampler_def Let_def split: sum.splits option.splits)
qed

lemma calls_upscale_enhance_save [simp]:
  "calls (snd (snd (upscale_enhance_save E s w outp img sc))) = calls w"
  by (simp add: upscale_enhance_save_def Let_def split: option.splits sum.splits prod.splits)

lemma calls_upscale_try [simp]: "calls (snd (snd (upscale_try E s w inp outp sc))) = calls w"
proof (cases "mkdir E (str_path (parent outp)) w")
  case mk: (Pair r1 w1)
  then have c1: "calls w1 = calls w"
    using calls_mkdir [of E "str_path (parent outp)" w] by simp
  show ?thesis
  proof (cases "load_upsampler E s w1")
    case ld: (Pair r2 w2)
    then have c2: "calls w2 = calls w"
      using calls_load_upsampler [of E s w1] c1 by simp
    show ?thesis
      using mk ld c1 c2
      by (simp add: upscale_try_def Let_def split: option.splits sum.splits)
  qed
qed

lemma calls_upscale:
  "calls (snd (snd (upscale E s w i o' sc))) =
     calls w @ [Call_upscale (to_Path i) (to_Path o') (fst (upscale E s w i o' sc))]"
proof (cases "upscale_try E s (log_io (Stat (str_path (to_Path i))) w) (to_Path i) (to_Path o') sc")
  case (fields r s1 w1)
  then have "calls w1 = calls w"
    using calls_upscale_try [of E s "log_io (Stat (str_path (to_Path i))) w" "to_Path i" "to_Path o'" sc]
    by simp
  with fields show ?thesis
    by (simp add: upscale_def Let_def log_call_def split: sum.splits)
qed

lemma calls_cleanup: "calls (snd (cleanup E s w)) = calls w @ [Call_cleanup]"
  by (simp add: cleanup_def Let_def log_call_def split: option.splits)

lemma calls_init [simp]: "calls (snd (init E n dev half t tp pp w)) = calls w"
proof (cases "mkdir E (str_path (joinpath (project_root E) ''models'')) w")
  case (Pair r w1)
  then have "calls w1 = calls w"
    using calls_mkdir [of E "str_path (joinpath (project_root E) ''models'')" w] by simp
  with Pair show ?thesis
    by (simp add: init_def Let_def split: option.splits)
qed

subsection \<open>What can leave upscale\<close>

lemma upscale_propagates_no_Exception:
  "fst (upscale E s w i o' sc) = Inl e \<Longrightarrow> \<not> is_Exception e"
  by (auto simp: upscale_def Let_def split: prod.splits sum.splits if_splits)

lemma roE_mkdir: "raises_only_Exception E \<Longrightarrow> mkdir_raises E d = Some e \<Longrightarrow> is_Exception e"
  unfolding raises_only_Exception_def by blast

lemma roE_fetch:
  "raises_only_Exception E \<Longrightarrow> urlretrieve E u = FetchRaises e part \<Longrightarrow> is_Exception e"
  unfolding raises_only_Exception_def by blast

lemma roE_load: "raises_only_Exception E \<Longrightarrow> load_weights E b = Some e \<Longrightarrow> is_Exception e"
  unfolding raises_only_Exception_def by blast

lemma roE_decode: "raises_only_Exception E \<Longrightarrow> imdecode E b = Inl e \<Longrightarrow> is_Exception e"
  unfolding raises_only_Exception_def by blast

lemma roE_enhance:
  "raises_only_Exception E \<Longrightarrow> enh_outcome (enhance E u img sc) = Inl e \<Longrightarrow> is_Exception e"
  unfolding raises_only_Exception_def by blast

lemma roE_encode: "raises_only_Exception E \<Longrightarrow> imencode E suf out = Inl e \<Longrightarrow> is_Exception e"
  unfolding raises_only_Exception_def by blast

lemma roE_tofile: "raises_only_Exception E \<Longrightarrow> tofile_raises E p = Some e \<Longrightarrow> is_Exception e"
  unfolding raises_only_Exception_def by blast

lemma mkdir_Exception:
  "raises_only_Exception E \<Longrightarrow> mkdir E d w = (Some e, w1) \<Longrightarrow> is_Exception e"
  by (auto simp: mkdir_def Let_def split: option.splits dest: roE_mkdir)

lemma wrap_load_error_Exception: "is_Exception e \<Longrightarrow> is_Exception (wrap_load_error e)"
  by (simp add: wrap_load_error_def)

lemma get_model_path_Exception:
  "raises_only_Exception E \<Longrightarrow> get_model_path E s w = (Inl e, w1) \<Longrightarrow> is_Exception e"
  by (auto simp: get_model_path_def Let_def split: if_splits fetch_outcome.splits dest: roE_fetch)

lemma load_upsampler_Exception:
  "raises_only_Exception E \<Longrightarrow> load_upsampler E s w = (Inl e, w1) \<Longrightarrow> is_Exception e"
proof -
  assume E: "raises_only_Exception E" and l: "load_upsampler E s w = (Inl e, w1)"
  obtain r w' where g: "get_model_path E s w = (r, w')"
    by (cases "get_model_path E s w")
  show ?thesis
    using l g get_model_path_Exception [OF E, of s w _ w'] roE_load [OF E]
    by (auto simp: load_upsampler_def Let_def wrap_load_error_def
             split: if_splits sum.splits option.splits)
qed

lemma upscale_enhance_save_Exception:
  "raises_only_Exception E \<Longrightarrow> upscale_enhance_save E s w outp img sc = (Inl e, s1, w1) \<Longrightarrow>
     is_Exception e"
  by (auto simp: upscale_enhance_save_def Let_def
           split: option.splits sum.splits prod.splits if_splits
           dest: roE_enhance roE_encode roE_tofile)

lemma upscale_try_Exception:
  assumes E: "raises_only_Exception E"
    and t: "upscale_try E s w inp outp sc = (Inl e, s1, w1)"
  shows "is_Exception e"
proof -
  obtain r1 wa where mk: "mkdir E (str_path (parent outp)) w = (r1, wa)"
    by (cases "mkdir E (str_path (parent outp)) w")
  obtain r2 wb where ld: "load_upsampler E s wa = (r2, wb)"
    by (cases "load_upsampler E s wa")
  show ?thesis
    using t mk ld mkdir_Exception [OF E, of _ w _ wa] load_upsampler_Exception [OF E, of s wa _ wb]
      upscale_enhance_save_Exception [OF E] roE_decode [OF E]
    by (auto simp: upscale_try_def Let_def split: option.splits sum.splits)
qed

lemma upscale_total:
  assumes E: "raises_only_Exception E"
  shows "\<exists>b. fst (upscale E s w i o' sc) = Inr b"
proof (cases "fst (upscale E s w i o' sc)")
  case (Inl e)
  then have ne: "\<not> is_Exception e"
    by (rule upscale_propagates_no_Exception)
  obtain r s1 w1 where t: "upscale_try E s (log_io (Stat (str_path (to_Path i))) w) (to_Path i) (to_Path o') sc = (r, s1, w1)"
    by (cases "upscale_try E s (log_io (Stat (str_path (to_Path i))) w) (to_Path i) (to_Path o') sc")
  from Inl t have "r = Inl e"
    by (auto simp: upscale_def Let_def split: if_splits sum.splits)
  with t upscale_try_Exception [OF E] have "is_Exception e" by blast
  with ne show ?thesis by simp
next
  case (Inr b)
  then show ?thesis by blast
qed

subsection \<open>What a call changes in the session\<close>

lemma load_upsampler_fields:
  "load_upsampler E s w = (Inr s1, w1) \<Longrightarrow> s1\<lparr>upsampler := x\<rparr> = s\<lparr>upsampler := x\<rparr>"
  by (auto simp: load_upsampler_def Let_def split: if_splits prod.splits sum.splits option.splits)

lemma upscale_enhance_save_fields:
  "upscale_enhance_save E s w outp img sc = (r, s1, w1) \<Longrightarrow>
     s1\<lparr>upsampler := x\<rparr> = s\<lparr>upsampler := x\<rparr>"
  by (auto simp: upscale_enhance_save_def Let_def
           split: option.splits sum.splits prod.splits if_splits)

lemma upscale_try_fields:
  assumes "upscale_try E s w inp outp sc = (r, s1, w1)"
  shows "s1\<lparr>upsampler := x\<rparr> = s\<lparr>upsampler := x\<rparr>"
proof -
  obtain r1 wa where mk: "mkdir E (str_path (parent outp)) w = (r1, wa)"
    by (cases "mkdir E (str_path (parent outp)) w")
  obtain r2 wb where ld: "load_upsampler E s wa = (r2, wb)"
    by (cases "load_upsampler E s wa")
  show ?thesis
    using assms mk ld load_upsampler_fields [of E s wa _ wb x]
      upscale_enhance_save_fields [of E _ _ outp _ sc r s1 w1 x]
    by (auto simp: upscale_try_def Let_def split: option.splits sum.splits)
qed

lemma upscale_fields:
  assumes "upscale E s w i o' sc = (r, s1, w1)"
  shows "s1\<lparr>upsampler := x\<rparr> = s\<lparr>upsampler := x\<rparr>"
proof -
  obtain r' s' w' where t:
    "upscale_try E s (log_io (Stat (str_path (to_Path i))) w) (to_Path i) (to_Path o') sc = (r', s', w')"
    by (cases "upscale_try E s (log_io (Stat (str_path (to_Path i))) w) (to_Path i) (to_Path o') sc")
  show ?thesis
    using assms t upscale_try_fields [OF t, of x]
    by (auto simp: upscale_def Let_def split: if_splits sum.splits)
qed

lemma cleanup_session: "fst (cleanup E s w) = s\<lparr>upsampler := None\<rparr>"
proof (cases "upsampler s")
  case None
  then have "s\<lparr>upsampler := None\<rparr> = s"
    by (cases s) simp
  with None show ?thesis
    by (simp add: cleanup_def Let_def)
next
  case (Some u)
  then show ?thesis
    by (simp add: cleanup_def Let_def)
qed

subsection \<open>Files and the log of file-system calls across the steps\<close>

lemma files_log_io [simp]: "files (log_io ev w) = files w"
  by (simp add: log_io_def)

lemma dirs_log_io [simp]: "dirs (log_io ev w) = dirs w"
  by (simp add: log_io_def)

lemma exists_path_log_io [simp]: "exists_path (log_io ev w) p = exists_path w p"
  by (simp add: exists_path_def is_file_def)












subsection \<open>What a successful call needs, and what it writes\<close>






subsection \<open>The batch loop\<close>

lemma batch_loop_complete:
  assumes E: "raises_only_Exception E"
  shows "\<exists>rs s' w'. length rs = length ps \<and>
           batch_loop E odir sc n idx ps s w cnt sigs =
             (None, s', w', cnt + length (filter id rs),
              sigs @ map (batch_progress E n) (enumerate idx ps)) \<and>
           calls w' = calls w @ map (batch_call odir) (zip ps rs)"
proof (induction ps arbitrary: idx s w cnt sigs)
  case Nil
  then show ?case by simp
next
  case (Cons p ps)
  define outs where "outs = Str (str_path (output_file odir p))"
  from upscale_total [OF E] obtain b where b: "fst (upscale E s w (Str p) outs sc) = Inr b"
    by blast
  obtain s1 w1 where u: "upscale E s w (Str p) outs sc = (Inr b, s1, w1)"
    using b by (cases "upscale E s w (Str p) outs sc") auto
  have c1: "calls w1 = calls w @ [batch_call odir (p, b)]"
    using calls_upscale [of E s w "Str p" outs sc] u
    by (simp add: batch_call_def outs_def)
  define cnt1 where "cnt1 = (if b then cnt + 1 else cnt)"
  define sigs1 where "sigs1 = sigs @ [batch_progress E n (idx, p)]"
  from Cons.IH [of "Suc idx" s1 w1 cnt1 sigs1] obtain rs s' w' where
    len: "length rs = length ps" and
    loop: "batch_loop E odir sc n (Suc idx) ps s1 w1 cnt1 sigs1 =
             (None, s', w', cnt1 + length (filter id rs),
              sigs1 @ map (batch_progress E n) (enumerate (Suc idx) ps))" and
    cs: "calls w' = calls w1 @ map (batch_call odir) (zip ps rs)"
    by blast
  have step: "batch_loop E odir sc n idx (p # ps) s w cnt sigs =
                batch_loop E odir sc n (Suc idx) ps s1 w1 cnt1 sigs1"
    using u by (simp add: outs_def cnt1_def sigs1_def batch_progress_def)
  have "length (b # rs) = length (p # ps)"
    using len by simp
  moreover have "batch_loop E odir sc n idx (p # ps) s w cnt sigs =
      (None, s', w', cnt + length (filter id (b # rs)),
       sigs @ map (batch_progress E n) (enumerate idx (p # ps)))"
    using step loop by (simp add: cnt1_def sigs1_def)
  moreover have "calls w' = calls w @ map (batch_call odir) (zip (p # ps) (b # rs))"
    using cs c1 by simp
  ultimately show ?case by blast
qed

lemma init_ok:
  assumes "n \<in> set (map fst MODEL_CONFIGS)"
    and "mkdir_raises E (str_path (joinpath (project_root E) ''models'')) = None"
  shows "\<exists>s w1. init E n dev half t tp pp w = (Inr s, w1) \<and> calls w1 = calls w"
proof -
  from assms(1) obtain cfg where "map_of MODEL_CONFIGS n = Some cfg"
    by (metis map_of_eq_None_iff not_Some_eq set_map)
  with assms(2) have "\<exists>s w1. init E n dev half t tp pp w = (Inr s, w1)"
    by (simp add: init_def Let_def mkdir_def)
  then obtain s w1 where i: "init E n dev half t tp pp w = (Inr s, w1)" by blast
  with calls_init [of E n dev half t tp pp w] show ?thesis by auto
qed







subsection \<open>Unknown model identifiers\<close>

text \<open>
  Claim C7. For every model identifier that is not in the model catalog, the
  constructor of the session, which is where the catalog is looked up, fails with the
  unknown-model error (a \<^verbatim>\<open>ValueError\<close> whose message starts with \<^verbatim>\<open>Unknown model\<close>), and
  the world it returns is the world it was given: no directory made, no file read or
  written, no network call.
\<close>

theorem unknown_model_rejected:
  "n \<notin> set (map fst MODEL_CONFIGS) \<Longrightarrow>
     init E n dev half t tp pp w = (Inl (ValueError (unknown_model_message n)), w)"
proof -
  assume "n \<notin> set (map fst MODEL_CONFIGS)"
  then have "map_of MODEL_CONFIGS n = None"
    by (simp add: map_of_eq_None_iff)
  then show ?thesis
    by (simp add: init_def)
qed

theorem unknown_model_rejected_witness:
  "''not-a-real-model'' \<notin> set (map fst MODEL_CONFIGS) \<and>
   init env0 ''not-a-real-model'' None True 400 10 0 world0 =
     (Inl (ValueError ''Unknown model: not-a-real-model. Available models: ['RealESRGAN_x4plus', 'RealESRGAN_x4plus_anime_6B']''), world0)"
  using unknown_model_rejected [of "''not-a-real-model''" env0 None True 400 10 0 world0]
  by (simp add: MODEL_CONFIGS_def unknown_model_message_def py_repr_list_def)

subsection \<open>Weight resolution\<close>

text \<open>
  Claim C8. Weight resolution is idempotent on success: when \<^verbatim>\<open>_get_model_path\<close> has
  returned a path, a second call in the world the first one left returns the same path,
  and all it does is the existence test on the cached file: the files are unchanged and
  the log gains one \<open>Stat\<close> entry, so nothing is fetched again.
\<close>

theorem resolve_idempotent:
  "get_model_path E s w = (Inr p, w1) \<Longrightarrow>
     p = model_path s \<and>
     get_model_path E s w1 = (Inr p, w1\<lparr>io_log := io_log w1 @ [Stat p]\<rparr>)"
  by (auto simp: get_model_path_def Let_def log_io_def exists_path_def is_file_def
           split: if_splits fetch_outcome.splits option.splits)

theorem resolve_idempotent_witness:
  "get_model_path env0 session0 world0 =
     (Inr ''/app/models/RealESRGAN_x4plus.pth'',
      world0\<lparr>files := (files world0)(''/app/models/RealESRGAN_x4plus.pth'' \<mapsto> [1, 2, 3]),
             io_log := [Stat ''/app/models/RealESRGAN_x4plus.pth'',
                        Urlretrieve (url (model_cfg session0)) ''/app/models/RealESRGAN_x4plus.pth'']\<rparr>) \<and>
   fst (get_model_path env0 session0 (snd (get_model_path env0 session0 world0))) =
     Inr ''/app/models/RealESRGAN_x4plus.pth'' \<and>
   io_log (snd (get_model_path env0 session0 (snd (get_model_path env0 session0 world0)))) =
     [Stat ''/app/models/RealESRGAN_x4plus.pth'',
      Urlretrieve (url (model_cfg session0)) ''/app/models/RealESRGAN_x4plus.pth'',
      Stat ''/app/models/RealESRGAN_x4plus.pth'']"
  using resolve_idempotent [of env0 session0 world0 "''/app/models/RealESRGAN_x4plus.pth''"
     "world0\<lparr>files := (files world0)(''/app/models/RealESRGAN_x4plus.pth'' \<mapsto> [1, 2, 3]),
             io_log := [Stat ''/app/models/RealESRGAN_x4plus.pth'',
                        Urlretrieve (url (model_cfg session0)) ''/app/models/RealESRGAN_x4plus.pth'']\<rparr>"]
  by (simp add: get_model_path_def model_path_def session0_def env0_def world0_def log_io_def
        exists_path_def is_file_def Path_def joinpath_def str_path_def Let_def)

subsection \<open>A request while a worker is running\<close>



subsection \<open>Tensors held by the backend after a call\<close>

text \<open>On every path of \<^verbatim>\<open>upscale\<close> but one the session holds no per-call buffer when
  the call returns, provided it held none before: the exception is the path on which
  \<^verbatim>\<open>enhance\<close> raises.\<close>

lemma load_upsampler_no_buffers:
  "holds_no_call_buffers s \<Longrightarrow> load_upsampler E s w = (Inr s1, w1) \<Longrightarrow> holds_no_call_buffers s1"
  by (auto simp: holds_no_call_buffers_def load_upsampler_def new_upsampler_def Let_def
           split: if_splits prod.splits sum.splits option.splits)

lemma upscale_enhance_save_no_buffers:
  "upscale_enhance_save E s w outp img sc = (r, s1, w1) \<Longrightarrow> holds_no_call_buffers s \<Longrightarrow>
     holds_no_call_buffers s1 \<or>
     (\<exists>u e. upsampler s = Some u \<and> enh_outcome (enhance E u img sc) = Inl e \<and> r = Inl e)"
  by (auto simp: holds_no_call_buffers_def upscale_enhance_save_def Let_def
           split: option.splits sum.splits prod.splits if_splits)

lemma upscale_try_no_buffers:
  assumes t: "upscale_try E s w inp outp sc = (r, s', w')" and h: "holds_no_call_buffers s"
  shows "holds_no_call_buffers s' \<or>
         (\<exists>u img e. enh_outcome (enhance E u img sc) = Inl e \<and> r = Inl e)"
proof -
  obtain r1 wa where mk: "mkdir E (str_path (parent outp)) w = (r1, wa)"
    by (cases "mkdir E (str_path (parent outp)) w")
  obtain r2 wb where ld: "load_upsampler E s wa = (r2, wb)"
    by (cases "load_upsampler E s wa")
  have es: "holds_no_call_buffers s' \<or>
         (\<exists>u img e. enh_outcome (enhance E u img sc) = Inl e \<and> r = Inl e)"
    if "upscale_enhance_save E s1 w1 outp img sc = (r, s', w')" and "holds_no_call_buffers s1"
    for s1 w1 img
    using upscale_enhance_save_no_buffers [OF that] by blast
  have keep: "holds_no_call_buffers s1" if "r2 = Inr s1" for s1
    using that ld h load_upsampler_no_buffers by blast
  show ?thesis
  proof (cases r1)
    case (Some e)
    with t mk h show ?thesis
      by (simp add: upscale_try_def)
  next
    case None
    show ?thesis
    proof (cases r2)
      case (Inl e)
      with t mk ld None h show ?thesis
        by (simp add: upscale_try_def)
    next
      case (Inr s1)
      from keep [OF Inr] have h1: "holds_no_call_buffers s1" .
      show ?thesis
      proof (cases "files wb (str_path inp)")
        case fnone: None
        with t mk ld None Inr h1 show ?thesis
          by (simp add: upscale_try_def Let_def)
      next
        case (Some buf)
        show ?thesis
        proof (cases "imdecode E buf")
          case dl: (Inl e)
          with t mk ld None Inr Some h1 show ?thesis
            by (simp add: upscale_try_def Let_def)
        next
          case dr: (Inr d)
          show ?thesis
          proof (cases d)
            case dn: None
            with t mk ld None Inr Some dr h1 show ?thesis
              by (simp add: upscale_try_def Let_def)
          next
            case (Some img)
            with t mk ld None Inr \<open>files wb (str_path inp) = Some buf\<close> dr
            have "upscale_enhance_save E s1 (log_io (ReadFile (str_path inp)) wb) outp img sc = (r, s', w')"
              by (simp add: upscale_try_def Let_def)
            from es [OF this h1] show ?thesis .
          qed
        qed
      qed
    qed
  qed
qed

lemma upscale_no_buffers:
  assumes u: "upscale E s w i o' sc = (r, s', w')" and h: "holds_no_call_buffers s"
  shows "holds_no_call_buffers s' \<or> (\<exists>u img e. enh_outcome (enhance E u img sc) = Inl e)"
proof -
  obtain r1 s1 w1 where t:
    "upscale_try E s (log_io (Stat (str_path (to_Path i))) w) (to_Path i) (to_Path o') sc = (r1, s1, w1)"
    by (cases "upscale_try E s (log_io (Stat (str_path (to_Path i))) w) (to_Path i) (to_Path o') sc")
  from upscale_try_no_buffers [OF t h] u t h show ?thesis
    by (auto simp: upscale_def Let_def split: if_splits sum.splits)
qed

text \<open>
  Claim C1 says that every call of \<^verbatim>\<open>upscale\<close>, failed ones too, releases what the
  backend stored for the call. The code deletes the attributes \<^verbatim>\<open>img\<close> and \<^verbatim>\<open>output\<close> of
  the upsampler in the statements after \<^verbatim>\<open>enhance\<close> (lines 215-222, under a comment that
  they must be deleted after each image), so the deletion is skipped when \<^verbatim>\<open>enhance\<close>
  raises. Here \<^verbatim>\<open>enhance\<close> raises a \<^verbatim>\<open>RuntimeError\<close> after storing the input tensor: the
  call returns \<open>False\<close>, and the session, which held nothing before, still holds the
  tensor of that call.
\<close>

theorem upscale_keeps_tensors_when_enhance_raises:
  "holds_no_call_buffers session0 \<and>
   fst (upscale env_oom session0 world0 (Str ''in/a.png'') (Str ''out/a_up.png'') 4) = Inr False \<and>
   map_option up_img
     (upsampler (fst (snd (upscale env_oom session0 world0 (Str ''in/a.png'') (Str ''out/a_up.png'') 4))))
     = Some (Some [7, 7]) \<and>
   \<not> holds_no_call_buffers
       (fst (snd (upscale env_oom session0 world0 (Str ''in/a.png'') (Str ''out/a_up.png'') 4)))"
proof -
  have a: "holds_no_call_buffers session0" by code_simp
  have b: "fst (upscale env_oom session0 world0 (Str ''in/a.png'') (Str ''out/a_up.png'') 4) = Inr False"
    by code_simp
  have c: "map_option up_img
     (upsampler (fst (snd (upscale env_oom session0 world0 (Str ''in/a.png'') (Str ''out/a_up.png'') 4))))
     = Some (Some [7, 7])"
    by code_simp
  have d: "\<not> holds_no_call_buffers
       (fst (snd (upscale env_oom session0 world0 (Str ''in/a.png'') (Str ''out/a_up.png'') 4)))"
    by code_simp
  from a b c d show ?thesis by blast
qed

subsection \<open>The batch worker\<close>

text \<open>
  What \<^verbatim>\<open>BatchUpscaleWorker.run\<close> does for every batch: when the model is in the catalog,
  the cache directory and the output directory can be made, and no external step raises
  outside \<^verbatim>\<open>Exception\<close>, it calls \<^verbatim>\<open>upscale\<close> once for every input, in input order,
  whatever the earlier calls returned, then calls \<^verbatim>\<open>cleanup\<close>; the signals are the
  initial progress, one progress signal per item, the final progress, and
  \<^verbatim>\<open>finished(success_count, total)\<close> where \<open>success_count\<close> is the number of calls
  that returned \<open>True\<close> and \<open>total\<close> is the number of inputs.
\<close>

theorem batch_counts_successes:
  assumes model: "bw_model_name k \<in> set (map fst MODEL_CONFIGS)"
    and cache: "mkdir_raises E (str_path (joinpath (project_root E) ''models'')) = None"
    and odir: "mkdir_raises E (str_path (Path (bw_output_dir k))) = None"
    and E: "raises_only_Exception E"
  shows "\<exists>rs w'. length rs = length (bw_input_paths k) \<and>
           BatchUpscaleWorker_run E k w =
             (None,
              [Progress 0 (''Initializing '' @ bw_model_name k @ ''...'')] @
              map (batch_progress E (length (bw_input_paths k))) (enumerate 0 (bw_input_paths k)) @
              [Progress 100 ''Batch processing completed!'',
               Finished_batch (length (filter id rs)) (length (bw_input_paths k))],
              w') \<and>
           calls w' =
             calls w @ map (batch_call (Path (bw_output_dir k))) (zip (bw_input_paths k) rs) @
             [Call_cleanup]"
proof -
  define sigs0 where "sigs0 = [Progress 0 (''Initializing '' @ bw_model_name k @ ''...'')]"
  define n where "n = length (bw_input_paths k)"
  from init_ok [OF model cache] obtain s w1 where
    i: "init E (bw_model_name k) None True (bw_tile k) (bw_tile_pad k) (bw_pre_pad k) w = (Inr s, w1)"
    and c1: "calls w1 = calls w"
    by blast
  obtain w2 where mk: "mkdir E (str_path (Path (bw_output_dir k))) w1 = (None, w2)"
    using odir by (simp add: mkdir_def Let_def)
  have c2: "calls w2 = calls w"
    using calls_mkdir [of E "str_path (Path (bw_output_dir k))" w1] mk c1 by simp
  from batch_loop_complete [OF E, of "bw_input_paths k" "Path (bw_output_dir k)" "bw_outscale k" n 0 s w2 0 sigs0]
  obtain rs s' w3 where
    len: "length rs = length (bw_input_paths k)" and
    loop: "batch_loop E (Path (bw_output_dir k)) (bw_outscale k) n 0 (bw_input_paths k) s w2 0 sigs0 =
             (None, s', w3, 0 + length (filter id rs),
              sigs0 @ map (batch_progress E n) (enumerate 0 (bw_input_paths k)))" and
    c3: "calls w3 = calls w2 @ map (batch_call (Path (bw_output_dir k))) (zip (bw_input_paths k) rs)"
    by blast
  have run: "BatchUpscaleWorker_run E k w =
      (None,
       (sigs0 @ map (batch_progress E n) (enumerate 0 (bw_input_paths k))) @
       [Progress 100 ''Batch processing completed!'', Finished_batch (length (filter id rs)) n],
       snd (cleanup E s' w3))"
    using i mk loop by (simp add: BatchUpscaleWorker_run_def Let_def n_def sigs0_def)
  have "calls (snd (cleanup E s' w3)) =
      calls w @ map (batch_call (Path (bw_output_dir k))) (zip (bw_input_paths k) rs) @ [Call_cleanup]"
    using calls_cleanup [of E s' w3] c3 c2 by simp
  with run len show ?thesis
    by (auto simp: n_def sigs0_def)
qed

text \<open>The instance: five inputs, the third does not decode. The count is 4 of 5 and the
  fourth and fifth items are attempted.\<close>

theorem batch_counts_successes_witness:
  "bw_model_name batch5 \<in> set (map fst MODEL_CONFIGS) \<and>
   mkdir_raises env0 (str_path (joinpath (project_root env0) ''models'')) = None \<and>
   mkdir_raises env0 (str_path (Path (bw_output_dir batch5))) = None \<and>
   raises_only_Exception env0 \<and>
   (\<exists>rs w'. length rs = 5 \<and>
      BatchUpscaleWorker_run env0 batch5 world5c =
        (None,
         [Progress 0 (''Initializing '' @ bw_model_name batch5 @ ''...'')] @
         map (batch_progress env0 (length (bw_input_paths batch5))) (enumerate 0 (bw_input_paths batch5)) @
         [Progress 100 ''Batch processing completed!'',
          Finished_batch (length (filter id rs)) (length (bw_input_paths batch5))],
         w') \<and>
      calls w' =
        calls world5c @ map (batch_call (Path (bw_output_dir batch5))) (zip (bw_input_paths batch5) rs) @
        [Call_cleanup]) \<and>
   calls (snd (snd (BatchUpscaleWorker_run env0 batch5 world5c))) =
     [Call_upscale (Path ''in/a.png'') (Path ''out/a_upscaled.png'') (Inr True),
      Call_upscale (Path ''in/b.png'') (Path ''out/b_upscaled.png'') (Inr True),
      Call_upscale (Path ''in/c.png'') (Path ''out/c_upscaled.png'') (Inr False),
      Call_upscale (Path ''in/d.png'') (Path ''out/d_upscaled.png'') (Inr True),
      Call_upscale (Path ''in/e.png'') (Path ''out/e_upscaled.png'') (Inr True),
      Call_cleanup]"
proof -
  have h1: "bw_model_name batch5 \<in> set (map fst MODEL_CONFIGS)"
    by (simp add: batch5_def MODEL_CONFIGS_def)
  have h2: "mkdir_raises env0 (str_path (joinpath (project_root env0) ''models'')) = None"
    by (simp add: env0_def)
  have h3: "mkdir_raises env0 (str_path (Path (bw_output_dir batch5))) = None"
    by (simp add: env0_def)
  have h4: "raises_only_Exception env0"
    by (simp add: raises_only_Exception_def env0_def)
  have len: "length (bw_input_paths batch5) = 5"
    by (simp add: batch5_def)
  have c: "calls (snd (snd (BatchUpscaleWorker_run env0 batch5 world5c))) =
     [Call_upscale (Path ''in/a.png'') (Path ''out/a_upscaled.png'') (Inr True),
      Call_upscale (Path ''in/b.png'') (Path ''out/b_upscaled.png'') (Inr True),
      Call_upscale (Path ''in/c.png'') (Path ''out/c_upscaled.png'') (Inr False),
      Call_upscale (Path ''in/d.png'') (Path ''out/d_upscaled.png'') (Inr True),
      Call_upscale (Path ''in/e.png'') (Path ''out/e_upscaled.png'') (Inr True),
      Call_cleanup]"
    by code_simp
  from batch_counts_successes [OF h1 h2 h3 h4, of world5c] len h1 h2 h3 h4 c
  show ?thesis by simp
qed

text \<open>
  Claim C2 has the final result report, next to the two counts, the ordered list of the
  names of the failed items. The worker attempts every item and counts the successes,
  as shown above, but it never collects a name: its result is the signal
  \<^verbatim>\<open>finished(success_count, total)\<close>. For the five inputs with the third undecodable it
  emits the signals below, ending in \<^verbatim>\<open>finished(4, 5)\<close>; it emits exactly the same signals
  when it is the second input that fails, while the result the specification words has
  the failed list \<^verbatim>\<open>[c.png]\<close> in one case and \<^verbatim>\<open>[b.png]\<close> in the other. The slot the main
  window connects to the signal, \<^verbatim>\<open>on_batch_finished(success_count, total, failed_files)\<close>,
  takes that list as its third argument.
\<close>

theorem batch_result_has_no_failed_list:
  "fst (snd (BatchUpscaleWorker_run env0 batch5 world5c)) =
     [Progress 0 ''Initializing RealESRGAN_x4plus...'',
      Progress 0 ''Processing 1/5: a.png'',
      Progress 20 ''Processing 2/5: b.png'',
      Progress 40 ''Processing 3/5: c.png'',
      Progress 60 ''Processing 4/5: d.png'',
      Progress 80 ''Processing 5/5: e.png'',
      Progress 100 ''Batch processing completed!'',
      Finished_batch 4 5] \<and>
   fst (snd (BatchUpscaleWorker_run env0 batch5 world5b)) =
     fst (snd (BatchUpscaleWorker_run env0 batch5 world5c)) \<and>
   spec_run_batch env0 batch5 world5c =
     Some \<lparr>success_count = 4, total_count = 5, failed = [''c.png'']\<rparr> \<and>
   spec_run_batch env0 batch5 world5b =
     Some \<lparr>success_count = 4, total_count = 5, failed = [''b.png'']\<rparr>"
proof -
  have a: "fst (snd (BatchUpscaleWorker_run env0 batch5 world5c)) =
     [Progress 0 ''Initializing RealESRGAN_x4plus...'',
      Progress 0 ''Processing 1/5: a.png'',
      Progress 20 ''Processing 2/5: b.png'',
      Progress 40 ''Processing 3/5: c.png'',
      Progress 60 ''Processing 4/5: d.png'',
      Progress 80 ''Processing 5/5: e.png'',
      Progress 100 ''Batch processing completed!'',
      Finished_batch 4 5]"
    by code_simp
  have b: "fst (snd (BatchUpscaleWorker_run env0 batch5 world5b)) =
     fst (snd (BatchUpscaleWorker_run env0 batch5 world5c))"
    by code_simp
  have c: "spec_run_batch env0 batch5 world5c =
     Some \<lparr>success_count = 4, total_count = 5, failed = [''c.png'']\<rparr>"
    by code_simp
  have d: "spec_run_batch env0 batch5 world5b =
     Some \<lparr>success_count = 4, total_count = 5, failed = [''b.png'']\<rparr>"
    by code_simp
  from a b c d show ?thesis by blast
qed

subsection \<open>Disposal of the session on every exit path\<close>

text \<open>The command line calls \<^verbatim>\<open>cleanup\<close> in a \<^verbatim>\<open>finally\<close> clause: once a session is
  built, every path through \<^verbatim>\<open>upscale_command\<close> calls \<^verbatim>\<open>upscale\<close> once and then
  \<^verbatim>\<open>cleanup\<close> once, also when \<^verbatim>\<open>upscale\<close> raises; when no session is built, nothing is
  called.\<close>

lemma upscale_command_cleanup_once:
  assumes f: "is_file w (str_path (Path (arg_input args)))"
    and m: "arg_model args \<in> set (map fst MODEL_CONFIGS)"
    and c: "mkdir_raises E (str_path (joinpath (project_root E) ''models'')) = None"
  shows "\<exists>r. calls (snd (upscale_command E args w)) =
           calls w @ [Call_upscale (Path (arg_input args)) (Path (arg_output args)) r, Call_cleanup]"
proof -
  define ip where "ip = Path (arg_input args)"
  define w2 where "w2 = log_io (Stat (str_path ip)) (log_io (Stat (str_path ip)) w)"
  from f have ex: "exists_path w (str_path ip)"
    by (simp add: exists_path_def is_file_def ip_def)
  from init_ok [OF m c, of None True 400 10 0 w2] obtain up w3 where
    i: "init E (arg_model args) None True 400 10 0 w2 = (Inr up, w3)" and c3: "calls w3 = calls w2"
    by blast
  obtain r up1 w4 where u: "upscale E up w3 (Pth ip) (Pth (Path (arg_output args))) 4 = (r, up1, w4)"
    by (cases "upscale E up w3 (Pth ip) (Pth (Path (arg_output args))) 4")
  have c4: "calls w4 = calls w @ [Call_upscale ip (Path (arg_output args)) r]"
    using calls_upscale [of E up w3 "Pth ip" "Pth (Path (arg_output args))" 4] u c3
    by (simp add: w2_def)
  have "snd (upscale_command E args w) = snd (cleanup E up1 w4)"
    using f ex i u by (simp add: upscale_command_def Let_def ip_def w2_def)
  with calls_cleanup [of E up1 w4] c4 show ?thesis
    by (auto simp: ip_def)
qed

lemma upscale_command_no_session:
  assumes "\<not> is_file w (str_path (Path (arg_input args))) \<or>
           arg_model args \<notin> set (map fst MODEL_CONFIGS) \<or>
           mkdir_raises E (str_path (joinpath (project_root E) ''models'')) \<noteq> None"
  shows "calls (snd (upscale_command E args w)) = calls w"
proof -
  define ip where "ip = Path (arg_input args)"
  define w2 where "w2 = log_io (Stat (str_path ip)) (log_io (Stat (str_path ip)) w)"
  have "isl (fst (init E (arg_model args) None True 400 10 0 w2))"
    if "arg_model args \<notin> set (map fst MODEL_CONFIGS) \<or>
        mkdir_raises E (str_path (joinpath (project_root E) ''models'')) \<noteq> None"
  proof (cases "map_of MODEL_CONFIGS (arg_model args)")
    case None
    then show ?thesis by (simp add: init_def)
  next
    case (Some cfg)
    then have "arg_model args \<in> set (map fst MODEL_CONFIGS)"
      by (metis map_of_eq_None_iff option.distinct(1) set_map)
    with that have "mkdir_raises E (str_path (joinpath (project_root E) ''models'')) \<noteq> None"
      by blast
    with Some show ?thesis
      by (auto simp: init_def Let_def mkdir_def)
  qed
  moreover obtain r0 w3 where i: "init E (arg_model args) None True 400 10 0 w2 = (r0, w3)"
    by (cases "init E (arg_model args) None True 400 10 0 w2")
  moreover have "calls w3 = calls w"
    using i calls_init [of E "arg_model args" None True 400 10 0 w2] by (simp add: w2_def)
  ultimately show ?thesis
    using assms
    by (auto simp: upscale_command_def Let_def ip_def w2_def exists_path_def is_file_def
             split: sum.splits)
qed

text \<open>
  Claim C3 says the same of the batch worker. There \<^verbatim>\<open>cleanup\<close> is a statement of the
  \<^verbatim>\<open>try\<close> body after the loop, not a \<^verbatim>\<open>finally\<close> clause, so an exception on the way
  skips it. First case: the session is built, then making the output directory raises;
  the handler emits the error and \<^verbatim>\<open>finished(0, 1)\<close>, and \<^verbatim>\<open>cleanup\<close> is never called.
  Second case: an exception that \<^verbatim>\<open>except Exception\<close> does not catch leaves \<^verbatim>\<open>upscale\<close>
  inside the loop and then the worker, again without \<^verbatim>\<open>cleanup\<close>. On the same
  exception the command line returns 1 and has called \<^verbatim>\<open>cleanup\<close>.
\<close>

theorem batch_skips_cleanup_on_exception:
  "fst (init env_mkdir_fail (bw_model_name batch1) None True (bw_tile batch1) (bw_tile_pad batch1)
          (bw_pre_pad batch1) world0) = Inr session0 \<and>
   fst (BatchUpscaleWorker_run env_mkdir_fail batch1 world0) = None \<and>
   fst (snd (BatchUpscaleWorker_run env_mkdir_fail batch1 world0)) =
     [Progress 0 ''Initializing RealESRGAN_x4plus...'',
      Error ''Batch processing error: out'',
      Finished_batch 0 1] \<and>
   calls (snd (snd (BatchUpscaleWorker_run env_mkdir_fail batch1 world0))) = [] \<and>
   fst (BatchUpscaleWorker_run env_interrupt batch1 world0) = Some KeyboardInterrupt \<and>
   calls (snd (snd (BatchUpscaleWorker_run env_interrupt batch1 world0))) =
     [Call_upscale (Path ''in/a.png'') (Path ''out/a_upscaled.png'') (Inl KeyboardInterrupt)] \<and>
   fst (upscale_command env_interrupt args0 world0) = Inr 1 \<and>
   calls (snd (upscale_command env_interrupt args0 world0)) =
     [Call_upscale (Path ''in/a.png'') (Path ''out/a_up.png'') (Inl KeyboardInterrupt), Call_cleanup]"
proof -
  have a: "fst (init env_mkdir_fail (bw_model_name batch1) None True (bw_tile batch1) (bw_tile_pad batch1)
          (bw_pre_pad batch1) world0) = Inr session0"
    by code_simp
  have b: "fst (BatchUpscaleWorker_run env_mkdir_fail batch1 world0) = None"
    by code_simp
  have c: "fst (snd (BatchUpscaleWorker_run env_mkdir_fail batch1 world0)) =
     [Progress 0 ''Initializing RealESRGAN_x4plus...'',
      Error ''Batch processing error: out'',
      Finished_batch 0 1]"
    by code_simp
  have d: "calls (snd (snd (BatchUpscaleWorker_run env_mkdir_fail batch1 world0))) = []"
    by code_simp
  have e: "fst (BatchUpscaleWorker_run env_interrupt batch1 world0) = Some KeyboardInterrupt"
    by code_simp
  have f: "calls (snd (snd (BatchUpscaleWorker_run env_interrupt batch1 world0))) =
     [Call_upscale (Path ''in/a.png'') (Path ''out/a_upscaled.png'') (Inl KeyboardInterrupt)]"
    by code_simp
  have g: "fst (upscale_command env_interrupt args0 world0) = Inr 1"
    by code_simp
  have h: "calls (snd (upscale_command env_interrupt args0 world0)) =
     [Call_upscale (Path ''in/a.png'') (Path ''out/a_up.png'') (Inl KeyboardInterrupt), Call_cleanup]"
    by code_simp
  from a b c d e f g h show ?thesis by blast
qed

subsection \<open>A session after cleanup\<close>

text \<open>
  Claim C5, as amended. \<^verbatim>\<open>cleanup\<close> drops the backend and changes nothing else in the
  session, and a call of \<^verbatim>\<open>upscale\<close> changes nothing in the session but the backend. So
  a session that was built, used and cleaned up is again the session the constructor
  built: the next call of \<^verbatim>\<open>upscale\<close> loads the backend again and behaves as a first
  call does. The session is not unusable.
\<close>

theorem cleanup_resets_session:
  "fst (cleanup E s w) = s\<lparr>upsampler := None\<rparr> \<and>
   (upsampler s0 = None \<and> upscale E s0 w0 i o' sc = (r, s, w) \<longrightarrow> fst (cleanup E s w) = s0)"
proof -
  have a: "fst (cleanup E s w) = s\<lparr>upsampler := None\<rparr>"
    by (rule cleanup_session)
  have b: "fst (cleanup E s w) = s0" if n: "upsampler s0 = None" and u: "upscale E s0 w0 i o' sc = (r, s, w)"
  proof -
    have "s\<lparr>upsampler := None\<rparr> = s0\<lparr>upsampler := None\<rparr>"
      using u by (rule upscale_fields)
    moreover have "s0\<lparr>upsampler := None\<rparr> = s0"
      using n by (cases s0) simp
    ultimately show ?thesis
      using a by simp
  qed
  from a b show ?thesis by blast
qed

theorem cleanup_resets_session_witness:
  "upsampler session0 = None \<and>
   upscale env0 session0 world0 (Str ''in/a.png'') (Str ''out/a_up.png'') 4 =
     (fst run1, fst (snd run1), snd (snd run1)) \<and>
   fst disposed = session0 \<and> fst disposed = (fst (snd run1))\<lparr>upsampler := None\<rparr>"
proof -
  have h1: "upsampler session0 = None"
    by (simp add: session0_def)
  have h2: "upscale env0 session0 world0 (Str ''in/a.png'') (Str ''out/a_up.png'') 4 =
     (fst run1, fst (snd run1), snd (snd run1))"
    by (simp add: run1_def)
  from cleanup_resets_session [of env0 "fst (snd run1)" "snd (snd run1)" session0 world0
      "Str ''in/a.png''" "Str ''out/a_up.png''" 4 "fst run1"] h1 h2
  have "fst disposed = (fst (snd run1))\<lparr>upsampler := None\<rparr> \<and> fst disposed = session0"
    unfolding disposed_def by blast
  with h1 h2 show ?thesis by blast
qed

text \<open>Claim C5 as stated fails: a run succeeds and loads the backend, \<^verbatim>\<open>cleanup\<close> drops
  it, and a second run on the same session succeeds.\<close>

theorem run_after_cleanup_succeeds:
  "fst run1 = Inr True \<and> upsampler (fst (snd run1)) \<noteq> None \<and>
   upsampler (fst disposed) = None \<and> fst run2 = Inr True"
proof -
  have a: "fst run1 = Inr True"
    unfolding run1_def by code_simp
  have b: "upsampler (fst (snd run1)) \<noteq> None"
    unfolding run1_def by code_simp
  have c: "upsampler (fst disposed) = None"
    unfolding disposed_def run1_def by code_simp
  have d: "fst run2 = Inr True"
    unfolding run2_def disposed_def run1_def by code_simp
  from a b c d show ?thesis by blast
qed

subsection \<open>Failures of upscale and its return value\<close>




subsection \<open>Output paths of a batch\<close>



end
